theory Spec2Isabelle
  imports Main "HOL-Library.AList" "HOL-Library.Sublist" "HOL-Library.Countable"
begin

section \<open>Build-time content sourcing: \<^verbatim>\<open>src/gatsby/sourceNodes.ts\<close>\<close>

text \<open>
  The module exports one asynchronous function, \<^verbatim>\<open>sourceNodes\<close>. It fetches up to five
  JSON feeds one after the other (each \<^verbatim>\<open>await\<close> completes before the next statement
  starts), and hands one object per record to the site generator's \<^verbatim>\<open>createNode\<close>.
  There is no \<^verbatim>\<open>try\<close>/\<^verbatim>\<open>catch\<close> anywhere in the function.

  The embedding keeps the JavaScript values untyped, as the source does (the payloads
  are whatever \<^verbatim>\<open>res.json()\<close> returns), writes every exception as a value, and threads
  the two observable effects (nodes handed to \<^verbatim>\<open>createNode\<close>, requests handed to
  \<^verbatim>\<open>fetch\<close>) through an explicit state.
\<close>

subsection \<open>JavaScript values\<close>

text \<open>
  A value is what \<^verbatim>\<open>JSON.parse\<close> can return, plus \<^verbatim>\<open>undefined\<close>, which the code
  produces itself whenever it reads a property that is not there. An object is the
  list of its own properties in insertion order. Numbers are integers (issue numbers,
  comment counts), rendered in plain decimal digits: a number with a fraction is not
  represented, and from \<^verbatim>\<open>1e21\<close> on JavaScript prints exponent notation where
  the model prints digits. Such numbers reach a statement below only as the title or
  name of a record, inside the text of its identifier.
\<close>

datatype jsval =
    JUndefined
  | JNull
  | JBool bool
  | JNum int
  | JStr string
  | JArr "jsval list"
  | JObj "(string \<times> jsval) list"

datatype error = FetchRejected | InvalidJson | TypeError | BuilderError

definition nullish :: "jsval \<Rightarrow> bool" where
  "nullish v = (v = JUndefined \<or> v = JNull)"

text \<open>The condition of an \<^verbatim>\<open>if\<close>: JavaScript's ToBoolean.\<close>

fun truthy :: "jsval \<Rightarrow> bool" where
  "truthy JUndefined = False"
| "truthy JNull = False"
| "truthy (JBool b) = b"
| "truthy (JNum i) = (i \<noteq> 0)"
| "truthy (JStr s) = (s \<noteq> [])"
| "truthy (JArr xs) = True"
| "truthy (JObj kvs) = True"

text \<open>
  Reading a property \<^verbatim>\<open>v.k\<close> or destructuring \<^verbatim>\<open>const { k } = v\<close> on a value that is
  neither \<^verbatim>\<open>null\<close> nor \<^verbatim>\<open>undefined\<close> (the callers check that first and raise
  TypeError). None of the names the source reads (\<^verbatim>\<open>html_url\<close>, \<^verbatim>\<open>title\<close>,
  \<^verbatim>\<open>number\<close>, \<^verbatim>\<open>user\<close>, \<^verbatim>\<open>comments\<close>, \<^verbatim>\<open>login\<close>, \<^verbatim>\<open>avatar_url\<close>, \<^verbatim>\<open>name\<close>,
  \<^verbatim>\<open>url\<close>, \<^verbatim>\<open>displayOnWebsiteLib\<close>, \<^verbatim>\<open>items\<close>, \<^verbatim>\<open>components\<close>, \<^verbatim>\<open>operationSpec\<close>) is a
  built-in property of strings, numbers, booleans, arrays or plain objects, so on
  anything but an object holding the key the result is \<^verbatim>\<open>undefined\<close>.
\<close>

fun get_prop :: "jsval \<Rightarrow> string \<Rightarrow> jsval" where
  "get_prop (JObj kvs) k = (case map_of kvs k of Some v \<Rightarrow> v | None \<Rightarrow> JUndefined)"
| "get_prop v k = JUndefined"

text \<open>Optional chaining \<^verbatim>\<open>v?.k\<close>.\<close>

definition opt_chain :: "jsval \<Rightarrow> string \<Rightarrow> jsval" where
  "opt_chain v k = (if nullish v then JUndefined else get_prop v k)"

text \<open>Decimal rendering of a number, as a template literal or an array index shows it.\<close>

fun digits :: "nat \<Rightarrow> string" where
  "digits n =
     (if n < 10 then [''0123456789'' ! n]
      else digits (n div 10) @ [''0123456789'' ! (n mod 10)])"

declare digits.simps [simp del]

definition NumberToString :: "int \<Rightarrow> string" where
  "NumberToString i = (if i < 0 then CHR ''-'' # digits (nat (- i)) else digits (nat i))"

fun join :: "string \<Rightarrow> string list \<Rightarrow> string" where
  "join sep [] = []"
| "join sep [s] = s"
| "join sep (s # t # ss) = s @ sep @ join sep (t # ss)"

text \<open>The first exception of a list of results, or all the values.\<close>

fun sequence :: "(error + 'a) list \<Rightarrow> error + 'a list" where
  "sequence [] = Inr []"
| "sequence (Inl e # rs) = Inl e"
| "sequence (Inr x # rs) = (case sequence rs of Inl e \<Rightarrow> Inl e | Inr xs \<Rightarrow> Inr (x # xs))"

text \<open>
  The conversion a template literal \<^verbatim>\<open>`...${v}`\<close> applies to \<^verbatim>\<open>v\<close>. An array is its
  elements joined by commas, with \<^verbatim>\<open>null\<close> and \<^verbatim>\<open>undefined\<close> elements empty. A plain
  object is \<^verbatim>\<open>[object Object]\<close>, unless it has an own property \<^verbatim>\<open>toString\<close>: a parsed
  payload holds no functions, so that property is not callable, the inherited
  \<^verbatim>\<open>valueOf\<close> returns the object itself, and the conversion raises TypeError.
\<close>

fun ToString :: "jsval \<Rightarrow> error + string" where
  "ToString JUndefined = Inr ''undefined''"
| "ToString JNull = Inr ''null''"
| "ToString (JBool b) = Inr (if b then ''true'' else ''false'')"
| "ToString (JNum i) = Inr (NumberToString i)"
| "ToString (JStr s) = Inr s"
| "ToString (JArr xs) =
     (case sequence (map (\<lambda>x. if x = JUndefined \<or> x = JNull then Inr [] else ToString x) xs) of
        Inl e \<Rightarrow> Inl e
      | Inr ss \<Rightarrow> Inr (join '','' ss))"
| "ToString (JObj kvs) =
     (if ''toString'' \<in> fst ` set kvs then Inl TypeError else Inr ''[object Object]'')"

text \<open>
  \<^verbatim>\<open>s.replace(pat, rep)\<close> with a string pattern: the first occurrence of \<^verbatim>\<open>pat\<close> in
  \<^verbatim>\<open>s\<close>, compared character by character, is replaced; a string without an occurrence
  is returned as it is. (Both replacement strings of the source, \<^verbatim>\<open>''\<close> and \<^verbatim>\<open>'-'\<close>,
  are free of \<^verbatim>\<open>$\<close> patterns.)
\<close>

fun replace :: "string \<Rightarrow> string \<Rightarrow> string \<Rightarrow> string" where
  "replace pat rep [] = (if pat = [] then rep else [])"
| "replace pat rep (c # cs) =
     (if prefix pat (c # cs) then rep @ drop (length pat) (c # cs)
      else c # replace pat rep cs)"

text \<open>The own enumerable properties of a value, which a spread \<^verbatim>\<open>...v\<close> copies.\<close>

fun own_entries :: "jsval \<Rightarrow> (string \<times> jsval) list" where
  "own_entries (JObj kvs) = kvs"
| "own_entries (JArr xs) = zip (map digits [0..<length xs]) xs"
| "own_entries (JStr s) = zip (map digits [0..<length s]) (map (\<lambda>c. JStr [c]) s)"
| "own_entries v = []"

text \<open>
  An object literal \<^verbatim>\<open>{ k1: v1, ..., ...other }\<close>: the properties are defined from left
  to right; defining a key that is already there replaces its value and keeps its
  place. (JavaScript lists keys that are array indices before the others; the
  statements below read properties by name and do not depend on that.)
\<close>

definition object :: "(string \<times> jsval) list \<Rightarrow> jsval" where
  "object kvs = JObj (foldl (\<lambda>ob (k, v). AList.update k v ob) [] kvs)"

text \<open>The rest of a destructuring \<^verbatim>\<open>const { k1, k2, ...other } = v\<close>.\<close>

definition rest_props :: "string list \<Rightarrow> jsval \<Rightarrow> (string \<times> jsval) list" where
  "rest_props ks v = filter (\<lambda>(k, _). k \<notin> set ks) (own_entries v)"

subsection \<open>The collaborators and the effects\<close>

record request =
  req_url :: string
  req_headers :: "(string \<times> string) list"

text \<open>
  The three outcomes of \<^verbatim>\<open>await fetch(...).then((res) => res.json())\<close>: the request
  is rejected, the body is not JSON, or the body parses to a value.
\<close>

datatype fetched = Rejected | NotJson | Json jsval

text \<open>
  What the function receives from outside: the environment variable, the network,
  the two helpers of the site generator, \<^verbatim>\<open>MenuBuilder.buildStructure\<close> of the
  \<^verbatim>\<open>redoc\<close> package (which returns an array of menu groups, or throws) and
  \<^verbatim>\<open>JSON.stringify\<close>.
\<close>

record env =
  POSTHOG_APP_API_KEY :: "string option"
  fetch :: "request \<Rightarrow> fetched"
  createNodeId :: "string \<Rightarrow> string"
  createContentDigest :: "jsval \<Rightarrow> string"
  buildStructure :: "jsval \<Rightarrow> error + jsval list"
  stringify :: "jsval \<Rightarrow> jsval"

record build =
  created :: "jsval list"
  requested :: "request list"

type_synonym step = "build \<Rightarrow> error option \<times> build"

text \<open>
  \<^verbatim>\<open>createNode\<close> belongs to the site generator: the model records the node it is
  handed, in call order.
\<close>

definition createNode :: "jsval \<Rightarrow> step" where
  "createNode node b = (None, b\<lparr>created := created b @ [node]\<rparr>)"

definition throw :: "error \<Rightarrow> step" where
  "throw err b = (Some err, b)"

text \<open>\<^verbatim>\<open>xs.forEach(f)\<close> on an array: an exception in the callback ends the loop.\<close>

fun forEach :: "(jsval \<Rightarrow> step) \<Rightarrow> jsval list \<Rightarrow> step" where
  "forEach f [] b = (None, b)"
| "forEach f (x # xs) b =
     (case f x b of
        (Some err, b') \<Rightarrow> (Some err, b')
      | (None, b') \<Rightarrow> forEach f xs b')"

text \<open>
  \<^verbatim>\<open>const payload = await fetch(...).then((res) => res.json()); payload.forEach(f)\<close>.
  Only an array has a callable \<^verbatim>\<open>forEach\<close>.
\<close>

definition fetch_forEach :: "env \<Rightarrow> request \<Rightarrow> (jsval \<Rightarrow> step) \<Rightarrow> step" where
  "fetch_forEach e rq f b =
     (let b1 = b\<lparr>requested := requested b @ [rq]\<rparr> in
      case fetch e rq of
        Rejected \<Rightarrow> (Some FetchRejected, b1)
      | NotJson \<Rightarrow> (Some InvalidJson, b1)
      | Json (JArr xs) \<Rightarrow> forEach f xs b1
      | Json _ \<Rightarrow> (Some TypeError, b1))"

text \<open>Statements in sequence: the first exception ends the function.\<close>

fun run :: "step list \<Rightarrow> step" where
  "run [] b = (None, b)"
| "run (s # ss) b =
     (case s b of
        (Some err, b') \<Rightarrow> (Some err, b')
      | (None, b') \<Rightarrow> run ss b')"

subsection \<open>The issue and pull-request feeds\<close>

definition issues_request :: request where
  "issues_request =
     \<lparr>req_url = ''https://api.github.com/repos/posthog/posthog/issues?sort=comments&per_page=5'',
      req_headers = []\<rparr>"

definition pulls_request :: request where
  "pulls_request =
     \<lparr>req_url = ''https://api.github.com/repos/posthog/posthog/pulls?sort=popularity&per_page=5'',
      req_headers = []\<rparr>"

text \<open>The author descriptor \<^verbatim>\<open>{ username: user?.login, avatar: user?.avatar_url, url: user?.html_url }\<close>.\<close>

definition user_data :: "jsval \<Rightarrow> jsval" where
  "user_data user =
     JObj [(''username'', opt_chain user ''login''),
           (''avatar'', opt_chain user ''avatar_url''),
           (''url'', opt_chain user ''html_url'')]"

text \<open>The object \<^verbatim>\<open>data\<close> of the issue callback (lines 53 to 64).\<close>

definition issue_data :: "jsval \<Rightarrow> jsval" where
  "issue_data issue =
     JObj [(''url'', get_prop issue ''html_url''),
           (''title'', get_prop issue ''title''),
           (''number'', get_prop issue ''number''),
           (''comments'', get_prop issue ''comments''),
           (''user'', user_data (get_prop issue ''user''))]"

text \<open>
  The object \<^verbatim>\<open>node\<close> of the issue callback (lines 65 to 74). Destructuring \<^verbatim>\<open>null\<close>
  raises TypeError; so does a title that the template literal cannot convert.
\<close>

definition issue_node :: "env \<Rightarrow> jsval \<Rightarrow> error + jsval" where
  "issue_node e issue =
     (if nullish issue then Inl TypeError
      else case ToString (get_prop issue ''title'') of
        Inl err \<Rightarrow> Inl err
      | Inr t \<Rightarrow>
          Inr (object
            ([(''id'', JStr (createNodeId e (''posthog-issue-'' @ t))),
              (''parent'', JNull),
              (''children'', JArr []),
              (''internal'',
                 JObj [(''type'', JStr ''PostHogIssue''),
                       (''contentDigest'', JStr (createContentDigest e (issue_data issue)))])]
             @ own_entries (issue_data issue))))"

definition issue_cb :: "env \<Rightarrow> jsval \<Rightarrow> step" where
  "issue_cb e issue b =
     (case issue_node e issue of
        Inl err \<Rightarrow> throw err b
      | Inr node \<Rightarrow> createNode node b)"

definition issues_feed :: "env \<Rightarrow> step" where
  "issues_feed e = fetch_forEach e issues_request (issue_cb e)"

text \<open>The pull-request callback (lines 81 to 104): the same without \<^verbatim>\<open>comments\<close>.\<close>

definition pull_data :: "jsval \<Rightarrow> jsval" where
  "pull_data issue =
     JObj [(''url'', get_prop issue ''html_url''),
           (''title'', get_prop issue ''title''),
           (''number'', get_prop issue ''number''),
           (''user'', user_data (get_prop issue ''user''))]"

definition pull_node :: "env \<Rightarrow> jsval \<Rightarrow> error + jsval" where
  "pull_node e issue =
     (if nullish issue then Inl TypeError
      else case ToString (get_prop issue ''title'') of
        Inl err \<Rightarrow> Inl err
      | Inr t \<Rightarrow>
          Inr (object
            ([(''id'', JStr (createNodeId e (''posthog-pull-'' @ t))),
              (''parent'', JNull),
              (''children'', JArr []),
              (''internal'',
                 JObj [(''type'', JStr ''PostHogPull''),
                       (''contentDigest'', JStr (createContentDigest e (pull_data issue)))])]
             @ own_entries (pull_data issue))))"

definition pull_cb :: "env \<Rightarrow> jsval \<Rightarrow> step" where
  "pull_cb e issue b =
     (case pull_node e issue of
        Inl err \<Rightarrow> throw err b
      | Inr node \<Rightarrow> createNode node b)"

definition pulls_feed :: "env \<Rightarrow> step" where
  "pulls_feed e = fetch_forEach e pulls_request (pull_cb e)"

subsection \<open>The integration and plugin feeds\<close>

definition integrations_request :: request where
  "integrations_request =
     \<lparr>req_url = ''https://raw.githubusercontent.com/PostHog/integrations-repository/main/integrations.json'',
      req_headers = []\<rparr>"

definition plugins_request :: request where
  "plugins_request =
     \<lparr>req_url = ''https://raw.githubusercontent.com/PostHog/integrations-repository/main/plugins.json'',
      req_headers = []\<rparr>"

text \<open>The expression \<^verbatim>\<open>url.replace('https://posthog.com', '')\<close> of line 119, on a string.\<close>

definition canonical_domain :: string where
  "canonical_domain = ''https://posthog.com''"

definition rewrite_url :: "string \<Rightarrow> string" where
  "rewrite_url u = replace canonical_domain [] u"

text \<open>
  The object \<^verbatim>\<open>node\<close> of the integration callback (lines 110 to 122). Only a string
  has a callable \<^verbatim>\<open>replace\<close>: any other \<^verbatim>\<open>url\<close>, a missing one too, raises TypeError.
  The spread \<^verbatim>\<open>...other\<close> comes last, so a record field called \<^verbatim>\<open>id\<close>, \<^verbatim>\<open>parent\<close>,
  \<^verbatim>\<open>children\<close> or \<^verbatim>\<open>internal\<close> replaces the value computed here.
\<close>

definition integration_node :: "env \<Rightarrow> jsval \<Rightarrow> error + jsval" where
  "integration_node e integration =
     (if nullish integration then Inl TypeError
      else case ToString (get_prop integration ''name'') of
        Inl err \<Rightarrow> Inl err
      | Inr t \<Rightarrow>
          (case get_prop integration ''url'' of
             JStr u \<Rightarrow>
               Inr (object
                 ([(''id'', JStr (createNodeId e (''integration-'' @ t))),
                   (''parent'', JNull),
                   (''children'', JArr []),
                   (''internal'',
                      JObj [(''type'', JStr ''Integration''),
                            (''contentDigest'', JStr (createContentDigest e integration))]),
                   (''url'', JStr (rewrite_url u)),
                   (''name'', get_prop integration ''name'')]
                  @ rest_props [''name'', ''url''] integration))
           | _ \<Rightarrow> Inl TypeError))"

definition integration_cb :: "env \<Rightarrow> jsval \<Rightarrow> step" where
  "integration_cb e integration b =
     (case integration_node e integration of
        Inl err \<Rightarrow> throw err b
      | Inr node \<Rightarrow> createNode node b)"

definition integrations_feed :: "env \<Rightarrow> step" where
  "integrations_feed e = fetch_forEach e integrations_request (integration_cb e)"

text \<open>The object \<^verbatim>\<open>node\<close> of the plugin callback (lines 132 to 142).\<close>

definition plugin_node :: "env \<Rightarrow> jsval \<Rightarrow> error + jsval" where
  "plugin_node e plugin =
     (case ToString (get_prop plugin ''name'') of
        Inl err \<Rightarrow> Inl err
      | Inr t \<Rightarrow>
          Inr (object
            ([(''id'', JStr (createNodeId e (''plugin-'' @ t))),
              (''parent'', JNull),
              (''children'', JArr []),
              (''internal'',
                 JObj [(''type'', JStr ''Plugin''),
                       (''contentDigest'', JStr (createContentDigest e plugin))]),
              (''name'', get_prop plugin ''name'')]
             @ rest_props [''displayOnWebsiteLib'', ''name''] plugin)))"

text \<open>The plugin callback (lines 129 to 145): the node is built and created under the \<^verbatim>\<open>if\<close>.\<close>

definition plugin_cb :: "env \<Rightarrow> jsval \<Rightarrow> step" where
  "plugin_cb e plugin b =
     (if nullish plugin then throw TypeError b
      else if truthy (get_prop plugin ''displayOnWebsiteLib'') then
        (case plugin_node e plugin of
           Inl err \<Rightarrow> throw err b
         | Inr node \<Rightarrow> createNode node b)
      else (None, b))"

definition plugins_feed :: "env \<Rightarrow> step" where
  "plugins_feed e = fetch_forEach e plugins_request (plugin_cb e)"

subsection \<open>The API-schema feed\<close>

definition schema_request :: "string \<Rightarrow> request" where
  "schema_request key =
     \<lparr>req_url = ''https://app.posthog.com/api/schema/'',
      req_headers = [(''Authorization'', ''Bearer '' @ key), (''accept'', ''application/json'')]\<rparr>"

text \<open>
  The callback of \<^verbatim>\<open>endpoint.items.map\<close> (lines 29 and 31):
  \<^verbatim>\<open>{ ...item, operationSpec: item.operationSpec, parent: null }\<close>.
\<close>

definition copy_item :: "jsval \<Rightarrow> error + jsval" where
  "copy_item item =
     (if nullish item then Inl TypeError
      else Inr (object (own_entries item @
                  [(''operationSpec'', get_prop item ''operationSpec''), (''parent'', JNull)])))"

text \<open>
  The object \<^verbatim>\<open>node\<close> of the endpoint callback (lines 20 to 34). Only an array has a
  callable \<^verbatim>\<open>map\<close> and only a string a callable \<^verbatim>\<open>replace\<close>. The digest is taken of
  \<^verbatim>\<open>{ items: endpoint.items }\<close>.
\<close>

definition endpoint_node :: "env \<Rightarrow> jsval \<Rightarrow> error + jsval" where
  "endpoint_node e endpoint =
     (if nullish endpoint then Inl TypeError
      else case ToString (get_prop endpoint ''name'') of
        Inl err \<Rightarrow> Inl err
      | Inr t \<Rightarrow>
          (case get_prop endpoint ''items'' of
             JArr its \<Rightarrow>
               (case sequence (map copy_item its) of
                  Inl err \<Rightarrow> Inl err
                | Inr copies \<Rightarrow>
                    (case get_prop endpoint ''name'' of
                       JStr n \<Rightarrow>
                         Inr (JObj
                           [(''id'', JStr (createNodeId e (''api_endpoint-'' @ t))),
                            (''internal'',
                               JObj [(''type'', JStr ''api_endpoint''),
                                     (''contentDigest'',
                                        JStr (createContentDigest e
                                          (JObj [(''items'', get_prop endpoint ''items'')])))]),
                            (''items'', stringify e (JArr copies)),
                            (''schema'', JArr copies),
                            (''url'', JStr (''/docs/api/'' @ replace ''_'' ''-'' n)),
                            (''name'', get_prop endpoint ''name'')])
                     | _ \<Rightarrow> Inl TypeError))
           | _ \<Rightarrow> Inl TypeError))"

definition endpoint_cb :: "env \<Rightarrow> jsval \<Rightarrow> step" where
  "endpoint_cb e endpoint b =
     (case endpoint_node e endpoint of
        Inl err \<Rightarrow> throw err b
      | Inr node \<Rightarrow> createNode node b)"

text \<open>The node of lines 37 to 46.\<close>

definition components_node :: "env \<Rightarrow> jsval \<Rightarrow> error + jsval" where
  "components_node e api_endpoints =
     (if nullish api_endpoints then Inl TypeError
      else Inr (JObj
        [(''id'', JStr (createNodeId e ''api_endpoint-components'')),
         (''internal'',
            JObj [(''type'', JStr ''ApiComponents''),
                  (''contentDigest'',
                     JStr (createContentDigest e
                       (JObj [(''components'', get_prop api_endpoints ''components'')])))]),
         (''components'', stringify e (get_prop api_endpoints ''components''))]))"

definition components_cb :: "env \<Rightarrow> jsval \<Rightarrow> step" where
  "components_cb e api_endpoints b =
     (case components_node e api_endpoints of
        Inl err \<Rightarrow> throw err b
      | Inr node \<Rightarrow> createNode node b)"

text \<open>
  Lines 16 to 46, once the schema is fetched. \<^verbatim>\<open>menu[menu.length - 1]['items']\<close> raises
  TypeError on an empty menu (\<^verbatim>\<open>menu[-1]\<close> is \<^verbatim>\<open>undefined\<close>) and on a last entry
  that is \<^verbatim>\<open>null\<close>; \<^verbatim>\<open>all_endpoints.forEach\<close> does on anything but an array.
\<close>

definition schema_nodes :: "env \<Rightarrow> jsval \<Rightarrow> step" where
  "schema_nodes e api_endpoints b =
     (case buildStructure e (JObj [(''spec'', api_endpoints)]) of
        Inl err \<Rightarrow> throw err b
      | Inr menu \<Rightarrow>
          (if menu = [] \<or> nullish (last menu) then throw TypeError b
           else case get_prop (last menu) ''items'' of
             JArr all_endpoints \<Rightarrow>
               run [forEach (endpoint_cb e) all_endpoints, components_cb e api_endpoints] b
           | _ \<Rightarrow> throw TypeError b))"

text \<open>
  Lines 8 to 47. The condition \<^verbatim>\<open>process.env.POSTHOG_APP_API_KEY\<close> is false when the
  variable is not set and when it is the empty string.
\<close>

definition schema_feed :: "env \<Rightarrow> step" where
  "schema_feed e b =
     (case POSTHOG_APP_API_KEY e of
        None \<Rightarrow> (None, b)
      | Some key \<Rightarrow>
          (if key = [] then (None, b)
           else let b1 = b\<lparr>requested := requested b @ [schema_request key]\<rparr> in
             case fetch e (schema_request key) of
               Rejected \<Rightarrow> (Some FetchRejected, b1)
             | NotJson \<Rightarrow> (Some InvalidJson, b1)
             | Json api_endpoints \<Rightarrow> schema_nodes e api_endpoints b1))"

subsection \<open>The sourcing pass\<close>

definition feeds :: "env \<Rightarrow> step list" where
  "feeds e = [schema_feed e, issues_feed e, pulls_feed e, integrations_feed e, plugins_feed e]"

definition sourceNodes :: "env \<Rightarrow> step" where
  "sourceNodes e = run (feeds e)"

definition empty_build :: build where
  "empty_build = \<lparr>created = [], requested = []\<rparr>"

subsection \<open>Concrete inputs\<close>

text \<open>The issue record of the specification's example, and the fields it expects.\<close>

definition example_issue :: jsval where
  "example_issue =
     JObj [(''html_url'', JStr ''https://github.com/x/y/issues/1''),
           (''title'', JStr ''Bug''),
           (''number'', JNum 1),
           (''user'', JObj [(''login'', JStr ''a''), (''avatar_url'', JStr ''u''), (''html_url'', JStr ''p'')]),
           (''comments'', JNum 3)]"

definition example_fields :: "(string \<times> jsval) list" where
  "example_fields =
     [(''url'', JStr ''https://github.com/x/y/issues/1''),
      (''title'', JStr ''Bug''),
      (''number'', JNum 1),
      (''comments'', JNum 3),
      (''user'', JObj [(''username'', JStr ''a''), (''avatar'', JStr ''u''), (''url'', JStr ''p'')])]"

text \<open>
  Stand-ins for the collaborators, for evaluating the pass on concrete payloads: a
  network that serves a table of payloads and rejects every other request, an
  identifier and a digest that keep their whole input readable, and a menu builder
  that returns the schema itself as the only group.
\<close>

fun plain_text :: "jsval \<Rightarrow> string" where
  "plain_text JUndefined = ''undefined''"
| "plain_text JNull = ''null''"
| "plain_text (JBool b) = (if b then ''true'' else ''false'')"
| "plain_text (JNum i) = NumberToString i"
| "plain_text (JStr s) = ''<'' @ s @ ''>''"
| "plain_text (JArr xs) = ''['' @ join '','' (map plain_text xs) @ '']''"
| "plain_text (JObj kvs) =
     ''{'' @ join '','' (map (\<lambda>kv. fst kv @ '':'' @ plain_text (snd kv)) kvs) @ ''}''"

definition serve :: "(request \<times> jsval) list \<Rightarrow> request \<Rightarrow> fetched" where
  "serve table rq = (case map_of table rq of Some v \<Rightarrow> Json v | None \<Rightarrow> Rejected)"

definition test_env :: "string option \<Rightarrow> (request \<times> jsval) list \<Rightarrow> env" where
  "test_env key table =
     \<lparr>POSTHOG_APP_API_KEY = key,
      fetch = serve table,
      createNodeId = (\<lambda>s. ''id-'' @ s),
      createContentDigest = plain_text,
      buildStructure = (\<lambda>arg. Inr [get_prop arg ''spec'']),
      stringify = (\<lambda>v. JStr (plain_text v))\<rparr>"

text \<open>An issue record without a title, and two different issue records with one title.\<close>

definition untitled_issue :: jsval where
  "untitled_issue = JObj [(''html_url'', JStr ''h''), (''number'', JNum 7)]"

definition first_bug :: jsval where
  "first_bug = JObj [(''html_url'', JStr ''h1''), (''title'', JStr ''Bug''), (''number'', JNum 1)]"

definition second_bug :: jsval where
  "second_bug = JObj [(''html_url'', JStr ''h2''), (''title'', JStr ''Bug''), (''number'', JNum 2)]"



text \<open>A catalog record without a name, with a site URL and the display flag set.\<close>

definition unnamed_entry :: jsval where
  "unnamed_entry = JObj [(''url'', JStr ''/x''), (''displayOnWebsiteLib'', JBool True)]"

text \<open>
  Two networks that differ in the issue feed only: on the first the request for the
  issues is rejected, on the second it returns an empty list.
\<close>

definition later_feeds :: "(request \<times> jsval) list" where
  "later_feeds =
     [(pulls_request, JArr [first_bug]),
      (integrations_request, JArr []),
      (plugins_request, JArr [])]"

definition issues_down :: env where
  "issues_down = test_env None later_feeds"

definition issues_up :: env where
  "issues_up = test_env None ((issues_request, JArr []) # later_feeds)"

text \<open>Two endpoint groups with the same operations and different names.\<close>

definition events_group :: jsval where
  "events_group = JObj [(''name'', JStr ''events''), (''items'', JArr [])]"

definition persons_group :: jsval where
  "persons_group = JObj [(''name'', JStr ''persons''), (''items'', JArr [])]"

text \<open>A network whose issue feed returns the two records with one title.\<close>

definition two_bugs :: env where
  "two_bugs = test_env None [(issues_request, JArr [first_bug, second_bug])]"

text \<open>Networks that serve an empty list for the given requests and reject the rest.\<close>

definition empty_lists :: "request list \<Rightarrow> (request \<times> jsval) list" where
  "empty_lists rqs = map (\<lambda>rq. (rq, JArr [])) rqs"

text \<open>The digest a node carries: \<^verbatim>\<open>node.internal.contentDigest\<close>.\<close>

definition digest_of :: "jsval \<Rightarrow> jsval" where
  "digest_of node = get_prop (get_prop node ''internal'') ''contentDigest''"

text \<open>
  A collision-free digest, for the statements that assume one: values can be
  enumerated, and the digest of a value is its number in tally marks.
\<close>

instance jsval :: countable
  by countable_datatype

definition tally :: "jsval \<Rightarrow> string" where
  "tally v = replicate (to_nat v) (CHR ''|'')"

definition tally_env :: env where
  "tally_env = (test_env None [])\<lparr>createContentDigest := tally\<rparr>"

section \<open>Properties\<close>

subsection \<open>String replacement\<close>

lemma replace_unchanged: "\<not> sublist pat s \<Longrightarrow> replace pat rep s = s"
  by (induction s) (auto simp: sublist_Cons_right)

lemma prefix_in_front:
  assumes "prefix pat (a @ pat @ b)" and "a \<noteq> []"
  shows "sublist pat (a @ butlast pat)"
proof (cases "pat = []")
  case True
  then show ?thesis by simp
next
  case False
  have "length pat \<le> length (a @ butlast pat)"
    using assms(2) False by (cases a) auto
  moreover have "prefix (a @ butlast pat) (a @ pat @ b)"
    by (simp add: prefix_def) (metis False append_butlast_last_id append_assoc)
  ultimately have "prefix pat (a @ butlast pat)"
    using assms(1) by (metis prefix_length_prefix)
  then show ?thesis by simp
qed

lemma replace_first_occurrence:
  "pat \<noteq> [] \<Longrightarrow> \<not> sublist pat (a @ butlast pat) \<Longrightarrow>
   replace pat rep (a @ pat @ b) = a @ rep @ b"
proof (induction a)
  case Nil
  then show ?case by (cases pat) auto
next
  case (Cons x a)
  have "\<not> prefix pat ((x # a) @ pat @ b)"
    using Cons.prems(2) prefix_in_front [of pat "x # a" b] by blast
  moreover have "\<not> sublist pat (a @ butlast pat)"
    using Cons.prems(2) by (simp add: sublist_Cons_right)
  ultimately show ?case
    using Cons.IH Cons.prems(1) by simp
qed

subsection \<open>The URL rewrite of the integration feed\<close>

text \<open>
  C3, as stated, fails twice. A URL that begins with the domain in another letter case
  is expected to lose that prefix and come out as \<^verbatim>\<open>/docs\<close>: the code compares
  characters exactly and returns it whole. A URL that holds the domain further in is
  expected to come out untouched: the code removes the occurrence wherever it stands.
\<close>

theorem rewrite_url_not_prefix_strip:
  "rewrite_url ''HTTPS://POSTHOG.COM/docs'' = ''HTTPS://POSTHOG.COM/docs'' \<and>
   rewrite_url ''/go?to=https://posthog.com/x'' = ''/go?to=/x''"
  by (simp add: rewrite_url_def canonical_domain_def)

text \<open>
  C3, amended: the rewrite removes the first exact-case occurrence of
  \<^verbatim>\<open>https://posthog.com\<close>, wherever it stands. A URL that begins with exactly that
  text loses that prefix and nothing else, later occurrences included; in a URL
  \<open>a @ domain @ b\<close> where no occurrence begins inside \<open>a\<close>, the result is \<open>a @ b\<close>;
  a URL without an exact-case occurrence is returned unchanged.
\<close>

theorem rewrite_url_first_occurrence:
  "rewrite_url (canonical_domain @ rest) = rest \<and>
   (\<not> sublist canonical_domain (a @ butlast canonical_domain) \<longrightarrow>
      rewrite_url (a @ canonical_domain @ b) = a @ b) \<and>
   (\<not> sublist canonical_domain u \<longrightarrow> rewrite_url u = u)"
proof -
  have ne: "canonical_domain \<noteq> []"
    by (simp add: canonical_domain_def)
  have "rewrite_url ([] @ canonical_domain @ rest) = [] @ [] @ rest"
    unfolding rewrite_url_def
    by (rule replace_first_occurrence [OF ne]) (simp add: canonical_domain_def sublist_code)
  moreover have "rewrite_url (a @ canonical_domain @ b) = a @ b"
    if "\<not> sublist canonical_domain (a @ butlast canonical_domain)"
    using replace_first_occurrence [OF ne that, of "[]" b] by (simp add: rewrite_url_def)
  moreover have "rewrite_url u = u" if "\<not> sublist canonical_domain u"
    using that by (simp add: rewrite_url_def replace_unchanged)
  ultimately show ?thesis by simp
qed

theorem rewrite_url_first_occurrence_witness:
  "rewrite_url (canonical_domain @ ''/docs?from=https://posthog.com'') = ''/docs?from=https://posthog.com'' \<and>
   \<not> sublist canonical_domain (''/go?to='' @ butlast canonical_domain) \<and>
   rewrite_url (''/go?to='' @ canonical_domain @ ''/x'') = ''/go?to='' @ ''/x'' \<and>
   \<not> sublist canonical_domain ''HTTPS://POSTHOG.COM/docs'' \<and>
   rewrite_url ''HTTPS://POSTHOG.COM/docs'' = ''HTTPS://POSTHOG.COM/docs''"
proof -
  have h1: "\<not> sublist canonical_domain (''/go?to='' @ butlast canonical_domain)"
    by (simp add: canonical_domain_def sublist_code)
  have h2: "\<not> sublist canonical_domain ''HTTPS://POSTHOG.COM/docs''"
    by (simp add: canonical_domain_def sublist_code)
  show ?thesis
    using h1 h2
      rewrite_url_first_occurrence
        [of "''/docs?from=https://posthog.com''" "''/go?to=''" "''/x''" "''HTTPS://POSTHOG.COM/docs''"]
    by blast
qed

text \<open>
  C9: a URL already in site-relative form, that is, one in which the canonical domain
  does not occur, is left unchanged by the rewrite, so that rewriting it twice equals
  rewriting it once.
\<close>

theorem rewrite_url_site_relative:
  "\<not> sublist canonical_domain u \<Longrightarrow>
   rewrite_url u = u \<and> rewrite_url (rewrite_url u) = rewrite_url u"
  by (simp add: rewrite_url_def replace_unchanged)

theorem rewrite_url_site_relative_witness:
  "\<not> sublist canonical_domain ''/docs/integrations/hubspot'' \<and>
   rewrite_url ''/docs/integrations/hubspot'' = ''/docs/integrations/hubspot'' \<and>
   rewrite_url (rewrite_url ''/docs/integrations/hubspot'') = rewrite_url ''/docs/integrations/hubspot''"
proof -
  have h: "\<not> sublist canonical_domain ''/docs/integrations/hubspot''"
    by (simp add: canonical_domain_def sublist_code)
  show ?thesis
    using h rewrite_url_site_relative [OF h] by simp
qed

subsection \<open>Object literals\<close>

lemma map_of_foldl_update:
  "map_of (foldl (\<lambda>ob (k, v). AList.update k v ob) acc kvs) = map_of acc ++ map_of (rev kvs)"
proof (induction kvs arbitrary: acc)
  case Nil
  then show ?case by simp
next
  case (Cons kv kvs)
  obtain k v where kv: "kv = (k, v)" by (cases kv)
  show ?case
    by (rule ext) (simp add: kv Cons.IH update_conv' map_add_def split: option.splits)
qed

lemma get_prop_object:
  "get_prop (object kvs) k = (case map_of (rev kvs) k of Some v \<Rightarrow> v | None \<Rightarrow> JUndefined)"
  by (simp add: object_def map_of_foldl_update)

subsection \<open>The callbacks, record by record\<close>

lemma issue_node_defined:
  "\<not> nullish r \<Longrightarrow> ToString (get_prop r ''title'') = Inr t \<Longrightarrow>
   issue_node e r = Inr (object
     ([(''id'', JStr (createNodeId e (''posthog-issue-'' @ t))),
       (''parent'', JNull),
       (''children'', JArr []),
       (''internal'',
          JObj [(''type'', JStr ''PostHogIssue''),
                (''contentDigest'', JStr (createContentDigest e (issue_data r)))])]
      @ own_entries (issue_data r)))"
  by (simp add: issue_node_def)

lemma pull_node_defined:
  "\<not> nullish r \<Longrightarrow> ToString (get_prop r ''title'') = Inr t \<Longrightarrow>
   pull_node e r = Inr (object
     ([(''id'', JStr (createNodeId e (''posthog-pull-'' @ t))),
       (''parent'', JNull),
       (''children'', JArr []),
       (''internal'',
          JObj [(''type'', JStr ''PostHogPull''),
                (''contentDigest'', JStr (createContentDigest e (pull_data r)))])]
      @ own_entries (pull_data r)))"
  by (simp add: pull_node_def)

lemma issue_node_id:
  "issue_node e r = Inr node \<Longrightarrow> ToString (get_prop r ''title'') = Inr t \<Longrightarrow>
   get_prop node ''id'' = JStr (createNodeId e (''posthog-issue-'' @ t))"
  by (auto simp: issue_node_def issue_data_def object_def split: if_splits)

lemma pull_node_id:
  "pull_node e r = Inr node \<Longrightarrow> ToString (get_prop r ''title'') = Inr t \<Longrightarrow>
   get_prop node ''id'' = JStr (createNodeId e (''posthog-pull-'' @ t))"
  by (auto simp: pull_node_def pull_data_def object_def split: if_splits)




lemma issue_cb_node:
  "issue_node e r = Inr node \<Longrightarrow> issue_cb e r b = (None, b\<lparr>created := created b @ [node]\<rparr>)"
  by (simp add: issue_cb_def createNode_def)

lemma pull_cb_node:
  "pull_node e r = Inr node \<Longrightarrow> pull_cb e r b = (None, b\<lparr>created := created b @ [node]\<rparr>)"
  by (simp add: pull_cb_def createNode_def)

lemma integration_cb_node:
  "integration_node e r = Inr node \<Longrightarrow>
   integration_cb e r b = (None, b\<lparr>created := created b @ [node]\<rparr>)"
  by (simp add: integration_cb_def createNode_def)

lemma integration_node_defined:
  "\<not> nullish r \<Longrightarrow> ToString (get_prop r ''name'') = Inr n \<Longrightarrow> get_prop r ''url'' = JStr u \<Longrightarrow>
   \<exists>node. integration_node e r = Inr node"
  by (simp add: integration_node_def)

lemma plugin_node_defined:
  "ToString (get_prop r ''name'') = Inr n \<Longrightarrow> \<exists>node. plugin_node e r = Inr node"
  by (simp add: plugin_node_def)

lemma truthy_not_nullish: "truthy (get_prop r k) \<Longrightarrow> \<not> nullish r"
  by (auto simp: nullish_def)

lemma plugin_cb_node:
  "truthy (get_prop r ''displayOnWebsiteLib'') \<Longrightarrow> plugin_node e r = Inr node \<Longrightarrow>
   plugin_cb e r b = (None, b\<lparr>created := created b @ [node]\<rparr>)"
  by (simp add: plugin_cb_def createNode_def truthy_not_nullish)


subsection \<open>Issue and pull-request records\<close>

text \<open>
  C8: the issue record of the example yields exactly one node, without an exception,
  and the fields of that node, next to the identifier, \<^verbatim>\<open>parent\<close>, \<^verbatim>\<open>children\<close> and
  \<^verbatim>\<open>internal\<close> that every node carries, are the ones the example lists, whatever the
  identifier and digest helpers are.
\<close>

theorem issue_example:
  "issue_cb e example_issue b =
     (None, b\<lparr>created := created b @
        [JObj ([(''id'', JStr (createNodeId e ''posthog-issue-Bug'')),
                (''parent'', JNull),
                (''children'', JArr []),
                (''internal'',
                   JObj [(''type'', JStr ''PostHogIssue''),
                         (''contentDigest'', JStr (createContentDigest e (JObj example_fields)))])]
               @ example_fields)]\<rparr>)"
  by (simp add: issue_cb_def issue_node_def issue_data_def user_data_def opt_chain_def
      nullish_def example_issue_def example_fields_def object_def createNode_def)




subsection \<open>The visibility filter of the plugin feed\<close>




subsection \<open>Records without a natural key\<close>

text \<open>
  C1, as stated, fails: the callbacks hold no test of the title or the name. An issue
  record without a title is expected to yield no node; the callback reads the missing
  title as \<^verbatim>\<open>undefined\<close>, renders it into the identifier and creates one node.
\<close>

theorem untitled_issue_emits_node:
  "fst (issue_cb (test_env None []) untitled_issue empty_build) = None \<and>
   get_prop untitled_issue ''title'' = JUndefined \<and>
   length (created (snd (issue_cb (test_env None []) untitled_issue empty_build))) = 1 \<and>
   get_prop (hd (created (snd (issue_cb (test_env None []) untitled_issue empty_build)))) ''id'' =
     JStr ''id-posthog-issue-undefined''"
  by (simp add: issue_cb_def issue_node_def issue_data_def user_data_def opt_chain_def
      nullish_def untitled_issue_def object_def createNode_def test_env_def empty_build_def)

text \<open>
  C1, amended: no record is excluded for missing its natural key. A missing title or
  name is rendered as the text \<^verbatim>\<open>undefined\<close>, and the record yields exactly one node,
  without an exception, as every record with a title or name that can be rendered
  does: an issue or pull-request record always (the identifier is derived from
  \<^verbatim>\<open>posthog-issue-\<close> or \<^verbatim>\<open>posthog-pull-\<close> followed by that text), an integration
  record when its \<^verbatim>\<open>url\<close> is a string, a plugin record when its display flag is
  truthy.
\<close>

theorem record_emits_one_node:
  assumes "\<not> nullish r"
  shows "(get_prop r ''title'' = JUndefined \<longrightarrow> ToString (get_prop r ''title'') = Inr ''undefined'') \<and>
         (get_prop r ''name'' = JUndefined \<longrightarrow> ToString (get_prop r ''name'') = Inr ''undefined'') \<and>
         (ToString (get_prop r ''title'') = Inr t \<longrightarrow>
            (\<exists>node. issue_cb e r b = (None, b\<lparr>created := created b @ [node]\<rparr>) \<and>
               get_prop node ''id'' = JStr (createNodeId e (''posthog-issue-'' @ t))) \<and>
            (\<exists>node. pull_cb e r b = (None, b\<lparr>created := created b @ [node]\<rparr>) \<and>
               get_prop node ''id'' = JStr (createNodeId e (''posthog-pull-'' @ t)))) \<and>
         (ToString (get_prop r ''name'') = Inr n \<longrightarrow>
            (\<forall>u. get_prop r ''url'' = JStr u \<longrightarrow>
               (\<exists>node. integration_cb e r b = (None, b\<lparr>created := created b @ [node]\<rparr>))) \<and>
            (truthy (get_prop r ''displayOnWebsiteLib'') \<longrightarrow>
               (\<exists>node. plugin_cb e r b = (None, b\<lparr>created := created b @ [node]\<rparr>))))"
proof (intro conjI allI impI)
  assume t: "ToString (get_prop r ''title'') = Inr t"
  obtain node where n: "issue_node e r = Inr node"
    using issue_node_defined [OF assms t] by blast
  show "\<exists>node. issue_cb e r b = (None, b\<lparr>created := created b @ [node]\<rparr>) \<and>
            get_prop node ''id'' = JStr (createNodeId e (''posthog-issue-'' @ t))"
    using issue_cb_node [OF n] issue_node_id [OF n t] by blast
next
  assume t: "ToString (get_prop r ''title'') = Inr t"
  obtain node where n: "pull_node e r = Inr node"
    using pull_node_defined [OF assms t] by blast
  show "\<exists>node. pull_cb e r b = (None, b\<lparr>created := created b @ [node]\<rparr>) \<and>
            get_prop node ''id'' = JStr (createNodeId e (''posthog-pull-'' @ t))"
    using pull_cb_node [OF n] pull_node_id [OF n t] by blast
next
  fix u
  assume "ToString (get_prop r ''name'') = Inr n" and "get_prop r ''url'' = JStr u"
  then obtain node where "integration_node e r = Inr node"
    using integration_node_defined [OF assms] by blast
  then show "\<exists>node. integration_cb e r b = (None, b\<lparr>created := created b @ [node]\<rparr>)"
    using integration_cb_node by blast
next
  assume n: "ToString (get_prop r ''name'') = Inr n"
    and v: "truthy (get_prop r ''displayOnWebsiteLib'')"
  obtain node where "plugin_node e r = Inr node"
    using plugin_node_defined [OF n] by blast
  then show "\<exists>node. plugin_cb e r b = (None, b\<lparr>created := created b @ [node]\<rparr>)"
    using plugin_cb_node [OF v] by blast
qed simp_all

theorem record_emits_one_node_witness:
  "\<not> nullish unnamed_entry \<and>
   get_prop unnamed_entry ''title'' = JUndefined \<and>
   get_prop unnamed_entry ''name'' = JUndefined \<and>
   get_prop unnamed_entry ''url'' = JStr ''/x'' \<and>
   truthy (get_prop unnamed_entry ''displayOnWebsiteLib'') \<and>
   (\<exists>node. issue_cb (test_env None []) unnamed_entry empty_build =
        (None, empty_build\<lparr>created := created empty_build @ [node]\<rparr>) \<and>
      get_prop node ''id'' = JStr (createNodeId (test_env None []) (''posthog-issue-'' @ ''undefined''))) \<and>
   (\<exists>node. pull_cb (test_env None []) unnamed_entry empty_build =
        (None, empty_build\<lparr>created := created empty_build @ [node]\<rparr>) \<and>
      get_prop node ''id'' = JStr (createNodeId (test_env None []) (''posthog-pull-'' @ ''undefined''))) \<and>
   (\<exists>node. integration_cb (test_env None []) unnamed_entry empty_build =
        (None, empty_build\<lparr>created := created empty_build @ [node]\<rparr>)) \<and>
   (\<exists>node. plugin_cb (test_env None []) unnamed_entry empty_build =
        (None, empty_build\<lparr>created := created empty_build @ [node]\<rparr>))"
proof -
  have h1: "\<not> nullish unnamed_entry"
    by (simp add: nullish_def unnamed_entry_def)
  have h2: "get_prop unnamed_entry ''title'' = JUndefined"
    by (simp add: unnamed_entry_def)
  have h3: "get_prop unnamed_entry ''name'' = JUndefined"
    by (simp add: unnamed_entry_def)
  have h4: "get_prop unnamed_entry ''url'' = JStr ''/x''"
    by (simp add: unnamed_entry_def)
  have h5: "truthy (get_prop unnamed_entry ''displayOnWebsiteLib'')"
    by (simp add: unnamed_entry_def)
  show ?thesis
    using h1 h2 h3 h4 h5
      record_emits_one_node [OF h1, where e = "test_env None []" and b = empty_build
        and t = "''undefined''" and n = "''undefined''"]
    by blast
qed

subsection \<open>Identifiers\<close>

lemma issue_node_title:
  "issue_node e r = Inr node \<Longrightarrow> \<exists>t. ToString (get_prop r ''title'') = Inr t"
  by (auto simp: issue_node_def split: if_splits sum.splits)

lemma pull_node_title:
  "pull_node e r = Inr node \<Longrightarrow> \<exists>t. ToString (get_prop r ''title'') = Inr t"
  by (auto simp: pull_node_def split: if_splits sum.splits)

lemma integration_node_name:
  "integration_node e r = Inr node \<Longrightarrow> \<exists>t. ToString (get_prop r ''name'') = Inr t"
  by (auto simp: integration_node_def split: if_splits sum.splits)

lemma plugin_node_name:
  "plugin_node e r = Inr node \<Longrightarrow> \<exists>t. ToString (get_prop r ''name'') = Inr t"
  by (auto simp: plugin_node_def split: if_splits sum.splits)

lemma rest_props_keys: "k \<notin> fst ` set (own_entries r) \<Longrightarrow> k \<notin> fst ` set (rest_props ks r)"
  by (auto simp: rest_props_def)

lemma integration_node_id:
  assumes "integration_node e r = Inr node"
    and "''id'' \<notin> fst ` set (own_entries r)"
    and "ToString (get_prop r ''name'') = Inr t"
  shows "get_prop node ''id'' = JStr (createNodeId e (''integration-'' @ t))"
proof -
  have "map_of (rev (rest_props [''name'', ''url''] r)) ''id'' = None"
    using rest_props_keys [OF assms(2)] by (simp add: map_of_eq_None_iff)
  then show ?thesis
    using assms(1,3)
    by (auto simp: integration_node_def get_prop_object map_add_def
        split: if_splits jsval.splits)
qed

lemma plugin_node_id:
  assumes "plugin_node e r = Inr node"
    and "''id'' \<notin> fst ` set (own_entries r)"
    and "ToString (get_prop r ''name'') = Inr t"
  shows "get_prop node ''id'' = JStr (createNodeId e (''plugin-'' @ t))"
proof -
  have "map_of (rev (rest_props [''displayOnWebsiteLib'', ''name''] r)) ''id'' = None"
    using rest_props_keys [OF assms(2)] by (simp add: map_of_eq_None_iff)
  then show ?thesis
    using assms(1,3)
    by (auto simp: plugin_node_def get_prop_object map_add_def)
qed

lemma same_id_same_text:
  "inj f \<Longrightarrow> (JStr (f (p @ s)) = JStr (f (p @ t))) = ((Inr s :: error + string) = Inr t)"
  by (auto dest: injD)

text \<open>
  C5, as stated, fails: the identifier is computed from the title alone, so two
  different issue records of one payload that share a title yield two nodes with one
  identifier.
\<close>

theorem two_bugs_one_identifier:
  "first_bug \<noteq> second_bug \<and>
   fst (issues_feed two_bugs empty_build) = None \<and>
   length (created (snd (issues_feed two_bugs empty_build))) = 2 \<and>
   get_prop (created (snd (issues_feed two_bugs empty_build)) ! 0) ''id'' = JStr ''id-posthog-issue-Bug'' \<and>
   get_prop (created (snd (issues_feed two_bugs empty_build)) ! 1) ''id'' = JStr ''id-posthog-issue-Bug''"
  by (simp add: issues_feed_def fetch_forEach_def two_bugs_def test_env_def serve_def
      issue_cb_def issue_node_def issue_data_def user_data_def opt_chain_def nullish_def
      first_bug_def second_bug_def object_def createNode_def empty_build_def)

text \<open>
  C5, amended: within a feed the identifier follows the natural key. With a
  collision-free \<^verbatim>\<open>createNodeId\<close>, two issue records (two pull-request records) yield
  nodes with the same identifier exactly when their titles render to the same text,
  and two integration records (two plugin records) that carry no field called
  \<^verbatim>\<open>id\<close> exactly when their names do. So records with different keys never share
  an identifier, and records with the same key always do.
\<close>

theorem identifier_follows_key:
  assumes "inj (createNodeId e)"
  shows "(issue_node e r1 = Inr n1 \<longrightarrow> issue_node e r2 = Inr n2 \<longrightarrow>
            (get_prop n1 ''id'' = get_prop n2 ''id'') =
            (ToString (get_prop r1 ''title'') = ToString (get_prop r2 ''title''))) \<and>
         (pull_node e r1 = Inr n1 \<longrightarrow> pull_node e r2 = Inr n2 \<longrightarrow>
            (get_prop n1 ''id'' = get_prop n2 ''id'') =
            (ToString (get_prop r1 ''title'') = ToString (get_prop r2 ''title''))) \<and>
         (integration_node e r1 = Inr n1 \<longrightarrow> integration_node e r2 = Inr n2 \<longrightarrow>
          ''id'' \<notin> fst ` set (own_entries r1) \<longrightarrow> ''id'' \<notin> fst ` set (own_entries r2) \<longrightarrow>
            (get_prop n1 ''id'' = get_prop n2 ''id'') =
            (ToString (get_prop r1 ''name'') = ToString (get_prop r2 ''name''))) \<and>
         (plugin_node e r1 = Inr n1 \<longrightarrow> plugin_node e r2 = Inr n2 \<longrightarrow>
          ''id'' \<notin> fst ` set (own_entries r1) \<longrightarrow> ''id'' \<notin> fst ` set (own_entries r2) \<longrightarrow>
            (get_prop n1 ''id'' = get_prop n2 ''id'') =
            (ToString (get_prop r1 ''name'') = ToString (get_prop r2 ''name'')))"
proof (intro conjI impI)
  assume n: "issue_node e r1 = Inr n1" "issue_node e r2 = Inr n2"
  obtain t1 t2 where t: "ToString (get_prop r1 ''title'') = Inr t1" "ToString (get_prop r2 ''title'') = Inr t2"
    using n issue_node_title by blast
  show "(get_prop n1 ''id'' = get_prop n2 ''id'') =
        (ToString (get_prop r1 ''title'') = ToString (get_prop r2 ''title''))"
    by (simp only: issue_node_id [OF n(1) t(1)] issue_node_id [OF n(2) t(2)] t
        same_id_same_text [OF assms])
next
  assume n: "pull_node e r1 = Inr n1" "pull_node e r2 = Inr n2"
  obtain t1 t2 where t: "ToString (get_prop r1 ''title'') = Inr t1" "ToString (get_prop r2 ''title'') = Inr t2"
    using n pull_node_title by blast
  show "(get_prop n1 ''id'' = get_prop n2 ''id'') =
        (ToString (get_prop r1 ''title'') = ToString (get_prop r2 ''title''))"
    by (simp only: pull_node_id [OF n(1) t(1)] pull_node_id [OF n(2) t(2)] t
        same_id_same_text [OF assms])
next
  assume n: "integration_node e r1 = Inr n1" "integration_node e r2 = Inr n2"
    and k: "''id'' \<notin> fst ` set (own_entries r1)" "''id'' \<notin> fst ` set (own_entries r2)"
  obtain t1 t2 where t: "ToString (get_prop r1 ''name'') = Inr t1" "ToString (get_prop r2 ''name'') = Inr t2"
    using n integration_node_name by blast
  show "(get_prop n1 ''id'' = get_prop n2 ''id'') =
        (ToString (get_prop r1 ''name'') = ToString (get_prop r2 ''name''))"
    by (simp only: integration_node_id [OF n(1) k(1) t(1)] integration_node_id [OF n(2) k(2) t(2)] t
        same_id_same_text [OF assms])
next
  assume n: "plugin_node e r1 = Inr n1" "plugin_node e r2 = Inr n2"
    and k: "''id'' \<notin> fst ` set (own_entries r1)" "''id'' \<notin> fst ` set (own_entries r2)"
  obtain t1 t2 where t: "ToString (get_prop r1 ''name'') = Inr t1" "ToString (get_prop r2 ''name'') = Inr t2"
    using n plugin_node_name by blast
  show "(get_prop n1 ''id'' = get_prop n2 ''id'') =
        (ToString (get_prop r1 ''name'') = ToString (get_prop r2 ''name''))"
    by (simp only: plugin_node_id [OF n(1) k(1) t(1)] plugin_node_id [OF n(2) k(2) t(2)] t
        same_id_same_text [OF assms])
qed


theorem identifier_follows_key_witness:
  "inj (createNodeId (test_env None [])) \<and>
   (\<exists>n1 n2. issue_node (test_env None []) first_bug = Inr n1 \<and>
      issue_node (test_env None []) second_bug = Inr n2 \<and>
      (get_prop n1 ''id'' = get_prop n2 ''id'') =
      (ToString (get_prop first_bug ''title'') = ToString (get_prop second_bug ''title''))) \<and>
   (\<exists>n1 n2. pull_node (test_env None []) first_bug = Inr n1 \<and>
      pull_node (test_env None []) second_bug = Inr n2 \<and>
      (get_prop n1 ''id'' = get_prop n2 ''id'') =
      (ToString (get_prop first_bug ''title'') = ToString (get_prop second_bug ''title''))) \<and>
   ''id'' \<notin> fst ` set (own_entries unnamed_entry) \<and>
   (\<exists>n1 n2. integration_node (test_env None []) unnamed_entry = Inr n1 \<and>
      integration_node (test_env None []) unnamed_entry = Inr n2 \<and>
      (get_prop n1 ''id'' = get_prop n2 ''id'') =
      (ToString (get_prop unnamed_entry ''name'') = ToString (get_prop unnamed_entry ''name''))) \<and>
   (\<exists>n1 n2. plugin_node (test_env None []) unnamed_entry = Inr n1 \<and>
      plugin_node (test_env None []) unnamed_entry = Inr n2 \<and>
      (get_prop n1 ''id'' = get_prop n2 ''id'') =
      (ToString (get_prop unnamed_entry ''name'') = ToString (get_prop unnamed_entry ''name'')))"
proof -
  have i: "inj (createNodeId (test_env None []))"
    by (simp add: test_env_def inj_def)
  have k: "''id'' \<notin> fst ` set (own_entries unnamed_entry)"
    by (simp add: unnamed_entry_def)
  obtain a1 where a1: "issue_node (test_env None []) first_bug = Inr a1"
    by (simp add: issue_node_def first_bug_def nullish_def)
  obtain a2 where a2: "issue_node (test_env None []) second_bug = Inr a2"
    by (simp add: issue_node_def second_bug_def nullish_def)
  obtain p1 where p1: "pull_node (test_env None []) first_bug = Inr p1"
    by (simp add: pull_node_def first_bug_def nullish_def)
  obtain p2 where p2: "pull_node (test_env None []) second_bug = Inr p2"
    by (simp add: pull_node_def second_bug_def nullish_def)
  obtain g where g: "integration_node (test_env None []) unnamed_entry = Inr g"
    by (simp add: integration_node_def unnamed_entry_def nullish_def)
  obtain q where q: "plugin_node (test_env None []) unnamed_entry = Inr q"
    by (simp add: plugin_node_def unnamed_entry_def)
  note T = identifier_follows_key [OF i]
  have c1: "(get_prop a1 ''id'' = get_prop a2 ''id'') =
      (ToString (get_prop first_bug ''title'') = ToString (get_prop second_bug ''title''))"
    using T [where ?r1.0 = first_bug and ?r2.0 = second_bug and ?n1.0 = a1 and ?n2.0 = a2] a1 a2
    by simp
  have c2: "(get_prop p1 ''id'' = get_prop p2 ''id'') =
      (ToString (get_prop first_bug ''title'') = ToString (get_prop second_bug ''title''))"
    using T [where ?r1.0 = first_bug and ?r2.0 = second_bug and ?n1.0 = p1 and ?n2.0 = p2] p1 p2
    by simp
  have c3: "(get_prop g ''id'' = get_prop g ''id'') =
      (ToString (get_prop unnamed_entry ''name'') = ToString (get_prop unnamed_entry ''name''))"
    using T [where ?r1.0 = unnamed_entry and ?r2.0 = unnamed_entry and ?n1.0 = g and ?n2.0 = g] g k
    by simp
  have c4: "(get_prop q ''id'' = get_prop q ''id'') =
      (ToString (get_prop unnamed_entry ''name'') = ToString (get_prop unnamed_entry ''name''))"
    using T [where ?r1.0 = unnamed_entry and ?r2.0 = unnamed_entry and ?n1.0 = q and ?n2.0 = q] q k
    by simp
  show ?thesis
    by (intro conjI exI) (rule i a1 a2 c1 p1 p2 c2 k g c3 q c4)+
qed

subsection \<open>The credential gate\<close>

lemma forEach_requested:
  assumes "\<And>x b. requested (snd (f x b)) = requested b"
  shows "requested (snd (forEach f xs b)) = requested b"
proof (induction xs arbitrary: b)
  case Nil
  then show ?case by simp
next
  case (Cons x xs)
  show ?case
  proof (cases "f x b")
    case (Pair r b')
    then have "requested b' = requested b"
      using assms [of x b] by simp
    then show ?thesis
      using Pair Cons.IH [of b'] by (cases r) simp_all
  qed
qed

lemma issue_cb_requested: "requested (snd (issue_cb e x b)) = requested b"
  by (simp add: issue_cb_def throw_def createNode_def split: sum.splits)

lemma pull_cb_requested: "requested (snd (pull_cb e x b)) = requested b"
  by (simp add: pull_cb_def throw_def createNode_def split: sum.splits)

lemma integration_cb_requested: "requested (snd (integration_cb e x b)) = requested b"
  by (simp add: integration_cb_def throw_def createNode_def split: sum.splits)

lemma plugin_cb_requested: "requested (snd (plugin_cb e x b)) = requested b"
  by (simp add: plugin_cb_def throw_def createNode_def split: sum.splits)

lemma fetch_forEach_requested:
  assumes "\<And>x b. requested (snd (f x b)) = requested b"
  shows "requested (snd (fetch_forEach e rq f b)) = requested b @ [rq]"
  by (simp add: fetch_forEach_def Let_def forEach_requested [of f, OF assms]
      split: fetched.splits jsval.splits)

lemma run_requested:
  assumes "\<And>s b. s \<in> set ss \<Longrightarrow> set (requested (snd (s b))) \<subseteq> set (requested b) \<union> R"
  shows "set (requested (snd (run ss b))) \<subseteq> set (requested b) \<union> R"
  using assms
proof (induction ss arbitrary: b)
  case Nil
  then show ?case by simp
next
  case (Cons s ss)
  have step: "set (requested (snd (s b))) \<subseteq> set (requested b) \<union> R"
    using Cons.prems [of s b] by simp
  show ?case
  proof (cases "s b")
    case (Pair r b')
    show ?thesis
    proof (cases r)
      case None
      have "set (requested (snd (run ss b'))) \<subseteq> set (requested b') \<union> R"
        using Cons.IH [of b'] Cons.prems by simp
      then show ?thesis
        using Pair None step by auto
    next
      case (Some err)
      then show ?thesis
        using Pair step by simp
    qed
  qed
qed

lemma schema_feed_no_key: "POSTHOG_APP_API_KEY e = None \<Longrightarrow> schema_feed e b = (None, b)"
  by (simp add: schema_feed_def)

lemma not_a_schema_request:
  "schema_request key \<notin> {issues_request, pulls_request, integrations_request, plugins_request}"
  by (simp add: schema_request_def issues_request_def pulls_request_def
      integrations_request_def plugins_request_def)

text \<open>
  C6: when \<^verbatim>\<open>POSTHOG_APP_API_KEY\<close> is not set, the schema feed does nothing: it creates
  no node, issues no request and raises no exception, so the pass is the pass of the
  four other feeds, and no request of the whole pass goes to the schema endpoint.
\<close>

theorem schema_feed_skipped:
  assumes "POSTHOG_APP_API_KEY e = None"
  shows "schema_feed e b = (None, b) \<and>
         sourceNodes e b = run [issues_feed e, pulls_feed e, integrations_feed e, plugins_feed e] b \<and>
         schema_request key \<notin> set (requested (snd (sourceNodes e empty_build)))"
proof (intro conjI)
  show "schema_feed e b = (None, b)"
    using assms by (rule schema_feed_no_key)
  show pass: "sourceNodes e b = run [issues_feed e, pulls_feed e, integrations_feed e, plugins_feed e] b"
    for b
    by (simp add: sourceNodes_def feeds_def schema_feed_no_key [OF assms])
  have "set (requested (snd (run [issues_feed e, pulls_feed e, integrations_feed e, plugins_feed e] empty_build)))
        \<subseteq> set (requested empty_build) \<union> {issues_request, pulls_request, integrations_request, plugins_request}"
  proof (rule run_requested)
    fix s b
    assume "s \<in> set [issues_feed e, pulls_feed e, integrations_feed e, plugins_feed e]"
    then consider "s = issues_feed e" | "s = pulls_feed e" | "s = integrations_feed e" | "s = plugins_feed e"
      by auto
    then show "set (requested (snd (s b))) \<subseteq> set (requested b) \<union>
        {issues_request, pulls_request, integrations_request, plugins_request}"
    proof cases
      case 1
      then show ?thesis
        by (auto simp: issues_feed_def fetch_forEach_requested [of "issue_cb e", OF issue_cb_requested])
    next
      case 2
      then show ?thesis
        by (auto simp: pulls_feed_def fetch_forEach_requested [of "pull_cb e", OF pull_cb_requested])
    next
      case 3
      then show ?thesis
        by (auto simp: integrations_feed_def
            fetch_forEach_requested [of "integration_cb e", OF integration_cb_requested])
    next
      case 4
      then show ?thesis
        by (auto simp: plugins_feed_def fetch_forEach_requested [of "plugin_cb e", OF plugin_cb_requested])
    qed
  qed
  then have "set (requested (snd (sourceNodes e empty_build)))
        \<subseteq> {issues_request, pulls_request, integrations_request, plugins_request}"
    by (simp add: pass empty_build_def)
  then show "schema_request key \<notin> set (requested (snd (sourceNodes e empty_build)))"
    using not_a_schema_request [of key] by blast
qed


theorem schema_feed_skipped_witness:
  "POSTHOG_APP_API_KEY issues_up = None \<and>
   schema_feed issues_up empty_build = (None, empty_build) \<and>
   sourceNodes issues_up empty_build =
     run [issues_feed issues_up, pulls_feed issues_up, integrations_feed issues_up,
          plugins_feed issues_up] empty_build \<and>
   schema_request ''phx_key'' \<notin> set (requested (snd (sourceNodes issues_up empty_build)))"
proof -
  have h: "POSTHOG_APP_API_KEY issues_up = None"
    by (simp add: issues_up_def test_env_def)
  show ?thesis
    using h schema_feed_skipped [OF h, of empty_build "''phx_key''"] by blast
qed

subsection \<open>A feed whose fetch fails\<close>

lemma run_append_fail:
  "run pre b = (None, b1) \<Longrightarrow> s b1 = (Some err, b2) \<Longrightarrow> run (pre @ s # post) b = (Some err, b2)"
proof (induction pre arbitrary: b)
  case Nil
  then show ?case by simp
next
  case (Cons p pre)
  then show ?case
    by (cases "p b") (auto split: option.splits)
qed

lemma fetch_forEach_failed:
  "fetch e rq = Rejected \<or> fetch e rq = NotJson \<Longrightarrow>
   \<exists>err. fetch_forEach e rq f b = (Some err, b\<lparr>requested := requested b @ [rq]\<rparr>)"
  by (auto simp: fetch_forEach_def)

lemma schema_feed_failed:
  "POSTHOG_APP_API_KEY e = Some key \<Longrightarrow> key \<noteq> [] \<Longrightarrow>
   fetch e (schema_request key) = Rejected \<or> fetch e (schema_request key) = NotJson \<Longrightarrow>
   \<exists>err. schema_feed e b = (Some err, b\<lparr>requested := requested b @ [schema_request key]\<rparr>)"
  by (auto simp: schema_feed_def)

text \<open>
  C2, as stated, fails: the feeds are fetched one after the other in one function
  without \<^verbatim>\<open>try\<close>/\<^verbatim>\<open>catch\<close>, so the rejection of one fetch ends the function. On two
  networks that serve the same pull-request payload, the pull-request feed is expected
  to emit the same node whether the issue feed fails or not: where the request for
  the issues is rejected, no node at all is created and no later request is issued.
\<close>

theorem later_feeds_silenced:
  "fetch issues_down issues_request = Rejected \<and>
   fetch issues_up issues_request = Json (JArr []) \<and>
   fetch issues_down pulls_request = Json (JArr [first_bug]) \<and>
   fetch issues_up pulls_request = Json (JArr [first_bug]) \<and>
   created (snd (sourceNodes issues_down empty_build)) = [] \<and>
   requested (snd (sourceNodes issues_down empty_build)) = [issues_request] \<and>
   length (created (snd (sourceNodes issues_up empty_build))) = 1 \<and>
   get_prop (hd (created (snd (sourceNodes issues_up empty_build)))) ''id'' = JStr ''id-posthog-pull-Bug''"
  by (simp add: sourceNodes_def feeds_def schema_feed_def issues_feed_def pulls_feed_def
      integrations_feed_def plugins_feed_def fetch_forEach_def
      issues_down_def issues_up_def test_env_def serve_def later_feeds_def empty_build_def
      issues_request_def pulls_request_def integrations_request_def plugins_request_def
      pull_cb_def pull_node_def pull_data_def user_data_def opt_chain_def nullish_def
      first_bug_def object_def createNode_def)

text \<open>
  C2, amended: if the fetch of one feed fails (the request is rejected or the body is
  not JSON), that feed emits no node, the nodes of the feeds before it in the fixed
  order schema, issues, pull requests, integrations, plugins stay created, and the
  pass ends there with the exception: no later feed is requested or emits a node.
\<close>

theorem failed_fetch_ends_pass:
  assumes "fetch e rq = Rejected \<or> fetch e rq = NotJson"
  shows "(POSTHOG_APP_API_KEY e = Some key \<longrightarrow> key \<noteq> [] \<longrightarrow> rq = schema_request key \<longrightarrow>
            (\<exists>err. sourceNodes e b = (Some err, b\<lparr>requested := requested b @ [rq]\<rparr>))) \<and>
         (rq = issues_request \<longrightarrow> run [schema_feed e] b = (None, b1) \<longrightarrow>
            (\<exists>err. sourceNodes e b = (Some err, b1\<lparr>requested := requested b1 @ [rq]\<rparr>))) \<and>
         (rq = pulls_request \<longrightarrow> run [schema_feed e, issues_feed e] b = (None, b1) \<longrightarrow>
            (\<exists>err. sourceNodes e b = (Some err, b1\<lparr>requested := requested b1 @ [rq]\<rparr>))) \<and>
         (rq = integrations_request \<longrightarrow>
          run [schema_feed e, issues_feed e, pulls_feed e] b = (None, b1) \<longrightarrow>
            (\<exists>err. sourceNodes e b = (Some err, b1\<lparr>requested := requested b1 @ [rq]\<rparr>))) \<and>
         (rq = plugins_request \<longrightarrow>
          run [schema_feed e, issues_feed e, pulls_feed e, integrations_feed e] b = (None, b1) \<longrightarrow>
            (\<exists>err. sourceNodes e b = (Some err, b1\<lparr>requested := requested b1 @ [rq]\<rparr>)))"
proof (intro conjI impI)
  assume "POSTHOG_APP_API_KEY e = Some key" "key \<noteq> []" "rq = schema_request key"
  then obtain err where "schema_feed e b = (Some err, b\<lparr>requested := requested b @ [rq]\<rparr>)"
    using schema_feed_failed [of e key b] assms by blast
  then have "sourceNodes e b = (Some err, b\<lparr>requested := requested b @ [rq]\<rparr>)"
    by (simp add: sourceNodes_def feeds_def)
  then show "\<exists>err. sourceNodes e b = (Some err, b\<lparr>requested := requested b @ [rq]\<rparr>)" ..
next
  assume rq: "rq = issues_request" and pre: "run [schema_feed e] b = (None, b1)"
  obtain err where "issues_feed e b1 = (Some err, b1\<lparr>requested := requested b1 @ [rq]\<rparr>)"
    using fetch_forEach_failed [OF assms, of "issue_cb e" b1] by (auto simp: issues_feed_def rq)
  then have "sourceNodes e b = (Some err, b1\<lparr>requested := requested b1 @ [rq]\<rparr>)"
    using run_append_fail [OF pre, of "issues_feed e"] by (simp add: sourceNodes_def feeds_def)
  then show "\<exists>err. sourceNodes e b = (Some err, b1\<lparr>requested := requested b1 @ [rq]\<rparr>)" ..
next
  assume rq: "rq = pulls_request" and pre: "run [schema_feed e, issues_feed e] b = (None, b1)"
  obtain err where "pulls_feed e b1 = (Some err, b1\<lparr>requested := requested b1 @ [rq]\<rparr>)"
    using fetch_forEach_failed [OF assms, of "pull_cb e" b1] by (auto simp: pulls_feed_def rq)
  then have "sourceNodes e b = (Some err, b1\<lparr>requested := requested b1 @ [rq]\<rparr>)"
    using run_append_fail [OF pre, of "pulls_feed e"] by (simp add: sourceNodes_def feeds_def)
  then show "\<exists>err. sourceNodes e b = (Some err, b1\<lparr>requested := requested b1 @ [rq]\<rparr>)" ..
next
  assume rq: "rq = integrations_request"
    and pre: "run [schema_feed e, issues_feed e, pulls_feed e] b = (None, b1)"
  obtain err where "integrations_feed e b1 = (Some err, b1\<lparr>requested := requested b1 @ [rq]\<rparr>)"
    using fetch_forEach_failed [OF assms, of "integration_cb e" b1]
    by (auto simp: integrations_feed_def rq)
  then have "sourceNodes e b = (Some err, b1\<lparr>requested := requested b1 @ [rq]\<rparr>)"
    using run_append_fail [OF pre, of "integrations_feed e"] by (simp add: sourceNodes_def feeds_def)
  then show "\<exists>err. sourceNodes e b = (Some err, b1\<lparr>requested := requested b1 @ [rq]\<rparr>)" ..
next
  assume rq: "rq = plugins_request"
    and pre: "run [schema_feed e, issues_feed e, pulls_feed e, integrations_feed e] b = (None, b1)"
  obtain err where "plugins_feed e b1 = (Some err, b1\<lparr>requested := requested b1 @ [rq]\<rparr>)"
    using fetch_forEach_failed [OF assms, of "plugin_cb e" b1] by (auto simp: plugins_feed_def rq)
  then have "sourceNodes e b = (Some err, b1\<lparr>requested := requested b1 @ [rq]\<rparr>)"
    using run_append_fail [OF pre, of "plugins_feed e"] by (simp add: sourceNodes_def feeds_def)
  then show "\<exists>err. sourceNodes e b = (Some err, b1\<lparr>requested := requested b1 @ [rq]\<rparr>)" ..
qed


lemmas eval_feeds =
  schema_feed_def issues_feed_def pulls_feed_def integrations_feed_def plugins_feed_def
  fetch_forEach_def test_env_def serve_def empty_lists_def empty_build_def
  issues_request_def pulls_request_def integrations_request_def plugins_request_def
  schema_request_def

theorem failed_fetch_ends_pass_witness:
  "(fetch (test_env (Some ''k'') []) (schema_request ''k'') = Rejected \<and>
    POSTHOG_APP_API_KEY (test_env (Some ''k'') []) = Some ''k'' \<and> ''k'' \<noteq> [] \<and>
    (\<exists>err. sourceNodes (test_env (Some ''k'') []) empty_build =
       (Some err, empty_build\<lparr>requested := requested empty_build @ [schema_request ''k'']\<rparr>))) \<and>
   (fetch (test_env None []) issues_request = Rejected \<and>
    run [schema_feed (test_env None [])] empty_build = (None, empty_build) \<and>
    (\<exists>err. sourceNodes (test_env None []) empty_build =
       (Some err, empty_build\<lparr>requested := requested empty_build @ [issues_request]\<rparr>))) \<and>
   (fetch (test_env None (empty_lists [issues_request])) pulls_request = Rejected \<and>
    run [schema_feed (test_env None (empty_lists [issues_request])),
         issues_feed (test_env None (empty_lists [issues_request]))] empty_build =
      (None, \<lparr>created = [], requested = [issues_request]\<rparr>) \<and>
    (\<exists>err. sourceNodes (test_env None (empty_lists [issues_request])) empty_build =
       (Some err, \<lparr>created = [], requested = [issues_request]\<rparr>
          \<lparr>requested := requested \<lparr>created = [], requested = [issues_request]\<rparr> @ [pulls_request]\<rparr>))) \<and>
   (fetch (test_env None (empty_lists [issues_request, pulls_request])) integrations_request = Rejected \<and>
    run [schema_feed (test_env None (empty_lists [issues_request, pulls_request])),
         issues_feed (test_env None (empty_lists [issues_request, pulls_request])),
         pulls_feed (test_env None (empty_lists [issues_request, pulls_request]))] empty_build =
      (None, \<lparr>created = [], requested = [issues_request, pulls_request]\<rparr>) \<and>
    (\<exists>err. sourceNodes (test_env None (empty_lists [issues_request, pulls_request])) empty_build =
       (Some err, \<lparr>created = [], requested = [issues_request, pulls_request]\<rparr>
          \<lparr>requested := requested \<lparr>created = [], requested = [issues_request, pulls_request]\<rparr>
             @ [integrations_request]\<rparr>))) \<and>
   (fetch (test_env None (empty_lists [issues_request, pulls_request, integrations_request]))
      plugins_request = Rejected \<and>
    run [schema_feed (test_env None (empty_lists [issues_request, pulls_request, integrations_request])),
         issues_feed (test_env None (empty_lists [issues_request, pulls_request, integrations_request])),
         pulls_feed (test_env None (empty_lists [issues_request, pulls_request, integrations_request])),
         integrations_feed (test_env None (empty_lists [issues_request, pulls_request, integrations_request]))]
      empty_build =
      (None, \<lparr>created = [], requested = [issues_request, pulls_request, integrations_request]\<rparr>) \<and>
    (\<exists>err. sourceNodes (test_env None (empty_lists [issues_request, pulls_request, integrations_request]))
         empty_build =
       (Some err, \<lparr>created = [], requested = [issues_request, pulls_request, integrations_request]\<rparr>
          \<lparr>requested :=
             requested \<lparr>created = [], requested = [issues_request, pulls_request, integrations_request]\<rparr>
             @ [plugins_request]\<rparr>)))"
proof -
  let ?e0 = "test_env (Some ''k'') []"
  let ?e1 = "test_env None []"
  let ?e2 = "test_env None (empty_lists [issues_request])"
  let ?b2 = "\<lparr>created = [], requested = [issues_request]\<rparr>"
  let ?e3 = "test_env None (empty_lists [issues_request, pulls_request])"
  let ?b3 = "\<lparr>created = [], requested = [issues_request, pulls_request]\<rparr>"
  let ?e4 = "test_env None (empty_lists [issues_request, pulls_request, integrations_request])"
  let ?b4 = "\<lparr>created = [], requested = [issues_request, pulls_request, integrations_request]\<rparr>"
  have f0: "fetch ?e0 (schema_request ''k'') = Rejected"
    by (simp add: test_env_def serve_def)
  have k0: "POSTHOG_APP_API_KEY ?e0 = Some ''k''" "''k'' \<noteq> []"
    by (simp_all add: test_env_def)
  have f1: "fetch ?e1 issues_request = Rejected"
    by (simp add: test_env_def serve_def)
  have r1: "run [schema_feed ?e1] empty_build = (None, empty_build)"
    by (simp add: schema_feed_def test_env_def)
  have f2: "fetch ?e2 pulls_request = Rejected"
    by (simp add: eval_feeds)
  have r2: "run [schema_feed ?e2, issues_feed ?e2] empty_build = (None, ?b2)"
    by (simp add: eval_feeds)
  have f3: "fetch ?e3 integrations_request = Rejected"
    by (simp add: eval_feeds)
  have r3: "run [schema_feed ?e3, issues_feed ?e3, pulls_feed ?e3] empty_build = (None, ?b3)"
    by (simp add: eval_feeds)
  have f4: "fetch ?e4 plugins_request = Rejected"
    by (simp add: eval_feeds)
  have r4: "run [schema_feed ?e4, issues_feed ?e4, pulls_feed ?e4, integrations_feed ?e4] empty_build =
      (None, ?b4)"
    by (simp add: eval_feeds)
  note T0 = failed_fetch_ends_pass [where e = ?e0 and rq = "schema_request ''k''" and key = "''k''"
      and b = empty_build, OF disjI1 [OF f0]]
  note T1 = failed_fetch_ends_pass [where e = ?e1 and rq = issues_request
      and b = empty_build and ?b1.0 = empty_build, OF disjI1 [OF f1]]
  note T2 = failed_fetch_ends_pass [where e = ?e2 and rq = pulls_request
      and b = empty_build and ?b1.0 = ?b2, OF disjI1 [OF f2]]
  note T3 = failed_fetch_ends_pass [where e = ?e3 and rq = integrations_request
      and b = empty_build and ?b1.0 = ?b3, OF disjI1 [OF f3]]
  note T4 = failed_fetch_ends_pass [where e = ?e4 and rq = plugins_request
      and b = empty_build and ?b1.0 = ?b4, OF disjI1 [OF f4]]
  have c0: "\<exists>err. sourceNodes ?e0 empty_build =
       (Some err, empty_build\<lparr>requested := requested empty_build @ [schema_request ''k'']\<rparr>)"
    using T0 k0 by blast
  have c1: "\<exists>err. sourceNodes ?e1 empty_build =
       (Some err, empty_build\<lparr>requested := requested empty_build @ [issues_request]\<rparr>)"
    using T1 r1 by blast
  have c2: "\<exists>err. sourceNodes ?e2 empty_build =
       (Some err, ?b2\<lparr>requested := requested ?b2 @ [pulls_request]\<rparr>)"
    using T2 r2 by blast
  have c3: "\<exists>err. sourceNodes ?e3 empty_build =
       (Some err, ?b3\<lparr>requested := requested ?b3 @ [integrations_request]\<rparr>)"
    using T3 r3 by blast
  have c4: "\<exists>err. sourceNodes ?e4 empty_build =
       (Some err, ?b4\<lparr>requested := requested ?b4 @ [plugins_request]\<rparr>)"
    using T4 r4 by blast
  show ?thesis
    using f0 k0 f1 r1 f2 r2 f3 r3 f4 r4 c0 c1 c2 c3 c4 by (intro conjI)
qed


subsection \<open>Digests\<close>

lemma issue_node_digest:
  "issue_node e r = Inr n \<Longrightarrow>
   digest_of n = JStr (createContentDigest e
     (JObj [(''url'', get_prop n ''url''), (''title'', get_prop n ''title''),
            (''number'', get_prop n ''number''), (''comments'', get_prop n ''comments''),
            (''user'', get_prop n ''user'')]))"
  by (auto simp: issue_node_def issue_data_def object_def digest_of_def split: if_splits sum.splits)

lemma pull_node_digest:
  "pull_node e r = Inr n \<Longrightarrow>
   digest_of n = JStr (createContentDigest e
     (JObj [(''url'', get_prop n ''url''), (''title'', get_prop n ''title''),
            (''number'', get_prop n ''number''), (''user'', get_prop n ''user'')]))"
  by (auto simp: pull_node_def pull_data_def object_def digest_of_def split: if_splits sum.splits)

lemma endpoint_node_digest:
  "endpoint_node e r = Inr n \<Longrightarrow>
   digest_of n = JStr (createContentDigest e (JObj [(''items'', get_prop r ''items'')]))"
  by (auto simp: endpoint_node_def digest_of_def split: if_splits sum.splits jsval.splits)

lemma integration_node_digest:
  assumes "integration_node e r = Inr n"
    and "''internal'' \<notin> fst ` set (own_entries r)"
  shows "digest_of n = JStr (createContentDigest e r)"
proof -
  have "map_of (rev (rest_props [''name'', ''url''] r)) ''internal'' = None"
    using rest_props_keys [OF assms(2)] by (simp add: map_of_eq_None_iff)
  then show ?thesis
    using assms(1)
    by (auto simp: integration_node_def get_prop_object map_add_def digest_of_def
        split: if_splits sum.splits jsval.splits)
qed

lemma plugin_node_digest:
  assumes "plugin_node e r = Inr n"
    and "''internal'' \<notin> fst ` set (own_entries r)"
  shows "digest_of n = JStr (createContentDigest e r)"
proof -
  have "map_of (rev (rest_props [''displayOnWebsiteLib'', ''name''] r)) ''internal'' = None"
    using rest_props_keys [OF assms(2)] by (simp add: map_of_eq_None_iff)
  then show ?thesis
    using assms(1)
    by (auto simp: plugin_node_def get_prop_object map_add_def digest_of_def split: sum.splits)
qed

lemma inj_tally: "inj tally"
proof (rule injI)
  fix x y :: jsval
  assume "tally x = tally y"
  then have "length (tally x) = length (tally y)" by simp
  then show "x = y" by (simp add: tally_def)
qed

text \<open>
  C4, as stated, fails: the digest of an endpoint-group node is taken of the group's
  operations alone. Two groups with the same operations and different names yield
  nodes that differ in \<^verbatim>\<open>name\<close>, \<^verbatim>\<open>url\<close> and identifier and carry the same digest,
  here under a digest that spells out all of its input.
\<close>

theorem digest_ignores_name:
  "endpoint_node (test_env None []) events_group =
     Inr (JObj [(''id'', JStr ''id-api_endpoint-events''),
                (''internal'', JObj [(''type'', JStr ''api_endpoint''),
                                     (''contentDigest'', JStr ''{items:[]}'')]),
                (''items'', JStr ''[]''),
                (''schema'', JArr []),
                (''url'', JStr ''/docs/api/events''),
                (''name'', JStr ''events'')]) \<and>
   endpoint_node (test_env None []) persons_group =
     Inr (JObj [(''id'', JStr ''id-api_endpoint-persons''),
                (''internal'', JObj [(''type'', JStr ''api_endpoint''),
                                     (''contentDigest'', JStr ''{items:[]}'')]),
                (''items'', JStr ''[]''),
                (''schema'', JArr []),
                (''url'', JStr ''/docs/api/persons''),
                (''name'', JStr ''persons'')])"
  by (simp add: endpoint_node_def events_group_def persons_group_def test_env_def nullish_def)

text \<open>
  C4, amended: the digest is computed from the record and nothing else, so an
  identical payload gives identical digests. For an issue or pull-request node it is
  \<^verbatim>\<open>createContentDigest\<close> of exactly the node's fields \<^verbatim>\<open>url\<close>, \<^verbatim>\<open>title\<close>, \<^verbatim>\<open>number\<close>,
  \<^verbatim>\<open>comments\<close> (issues only) and \<^verbatim>\<open>user\<close>, so that, with a collision-free
  \<^verbatim>\<open>createContentDigest\<close>, two such nodes carry the same digest exactly when those
  fields are equal. For an endpoint-group node it is the digest of the group's
  \<^verbatim>\<open>items\<close> alone, not of its name or URL. For an integration or plugin node whose
  record has no field called \<^verbatim>\<open>internal\<close> it is the digest of the upstream record
  as fetched.
\<close>

theorem digest_of_record:
  "(issue_node e r = Inr n \<longrightarrow>
      digest_of n = JStr (createContentDigest e
        (JObj [(''url'', get_prop n ''url''), (''title'', get_prop n ''title''),
               (''number'', get_prop n ''number''), (''comments'', get_prop n ''comments''),
               (''user'', get_prop n ''user'')]))) \<and>
   (pull_node e r = Inr n \<longrightarrow>
      digest_of n = JStr (createContentDigest e
        (JObj [(''url'', get_prop n ''url''), (''title'', get_prop n ''title''),
               (''number'', get_prop n ''number''), (''user'', get_prop n ''user'')]))) \<and>
   (inj (createContentDigest e) \<longrightarrow> issue_node e r1 = Inr n1 \<longrightarrow> issue_node e r2 = Inr n2 \<longrightarrow>
      (digest_of n1 = digest_of n2) =
      (\<forall>k \<in> set [''url'', ''title'', ''number'', ''comments'', ''user''].
          get_prop n1 k = get_prop n2 k)) \<and>
   (inj (createContentDigest e) \<longrightarrow> pull_node e r1 = Inr n1 \<longrightarrow> pull_node e r2 = Inr n2 \<longrightarrow>
      (digest_of n1 = digest_of n2) =
      (\<forall>k \<in> set [''url'', ''title'', ''number'', ''user'']. get_prop n1 k = get_prop n2 k)) \<and>
   (endpoint_node e r = Inr n \<longrightarrow>
      digest_of n = JStr (createContentDigest e (JObj [(''items'', get_prop r ''items'')]))) \<and>
   (integration_node e r = Inr n \<longrightarrow> ''internal'' \<notin> fst ` set (own_entries r) \<longrightarrow>
      digest_of n = JStr (createContentDigest e r)) \<and>
   (plugin_node e r = Inr n \<longrightarrow> ''internal'' \<notin> fst ` set (own_entries r) \<longrightarrow>
      digest_of n = JStr (createContentDigest e r))"
proof (intro conjI impI)
  assume i: "inj (createContentDigest e)"
    and n: "issue_node e r1 = Inr n1" "issue_node e r2 = Inr n2"
  show "(digest_of n1 = digest_of n2) =
      (\<forall>k \<in> set [''url'', ''title'', ''number'', ''comments'', ''user''].
          get_prop n1 k = get_prop n2 k)"
    by (simp add: issue_node_digest [OF n(1)] issue_node_digest [OF n(2)] inj_eq [OF i])
next
  assume i: "inj (createContentDigest e)"
    and n: "pull_node e r1 = Inr n1" "pull_node e r2 = Inr n2"
  show "(digest_of n1 = digest_of n2) =
      (\<forall>k \<in> set [''url'', ''title'', ''number'', ''user'']. get_prop n1 k = get_prop n2 k)"
    by (simp add: pull_node_digest [OF n(1)] pull_node_digest [OF n(2)] inj_eq [OF i])
qed (simp_all add: issue_node_digest pull_node_digest endpoint_node_digest
      integration_node_digest plugin_node_digest)


theorem digest_of_record_witness:
  "inj (createContentDigest tally_env) \<and>
   ''internal'' \<notin> fst ` set (own_entries unnamed_entry) \<and>
   (\<exists>n1 n2. issue_node tally_env first_bug = Inr n1 \<and> issue_node tally_env second_bug = Inr n2 \<and>
      digest_of n1 = JStr (createContentDigest tally_env
        (JObj [(''url'', get_prop n1 ''url''), (''title'', get_prop n1 ''title''),
               (''number'', get_prop n1 ''number''), (''comments'', get_prop n1 ''comments''),
               (''user'', get_prop n1 ''user'')])) \<and>
      (digest_of n1 = digest_of n2) =
      (\<forall>k \<in> set [''url'', ''title'', ''number'', ''comments'', ''user''].
          get_prop n1 k = get_prop n2 k)) \<and>
   (\<exists>n1 n2. pull_node tally_env first_bug = Inr n1 \<and> pull_node tally_env second_bug = Inr n2 \<and>
      digest_of n1 = JStr (createContentDigest tally_env
        (JObj [(''url'', get_prop n1 ''url''), (''title'', get_prop n1 ''title''),
               (''number'', get_prop n1 ''number''), (''user'', get_prop n1 ''user'')])) \<and>
      (digest_of n1 = digest_of n2) =
      (\<forall>k \<in> set [''url'', ''title'', ''number'', ''user'']. get_prop n1 k = get_prop n2 k)) \<and>
   (\<exists>n. endpoint_node tally_env events_group = Inr n \<and>
      digest_of n = JStr (createContentDigest tally_env (JObj [(''items'', get_prop events_group ''items'')]))) \<and>
   (\<exists>n. integration_node tally_env unnamed_entry = Inr n \<and>
      digest_of n = JStr (createContentDigest tally_env unnamed_entry)) \<and>
   (\<exists>n. plugin_node tally_env unnamed_entry = Inr n \<and>
      digest_of n = JStr (createContentDigest tally_env unnamed_entry))"
proof -
  have i: "inj (createContentDigest tally_env)"
    by (simp add: tally_env_def inj_tally)
  have k: "''internal'' \<notin> fst ` set (own_entries unnamed_entry)"
    by (simp add: unnamed_entry_def)
  obtain a1 where a1: "issue_node tally_env first_bug = Inr a1"
    by (simp add: issue_node_def first_bug_def nullish_def)
  obtain a2 where a2: "issue_node tally_env second_bug = Inr a2"
    by (simp add: issue_node_def second_bug_def nullish_def)
  obtain p1 where p1: "pull_node tally_env first_bug = Inr p1"
    by (simp add: pull_node_def first_bug_def nullish_def)
  obtain p2 where p2: "pull_node tally_env second_bug = Inr p2"
    by (simp add: pull_node_def second_bug_def nullish_def)
  obtain g where g: "endpoint_node tally_env events_group = Inr g"
    by (simp add: endpoint_node_def events_group_def nullish_def)
  obtain h where h: "integration_node tally_env unnamed_entry = Inr h"
    by (simp add: integration_node_def unnamed_entry_def nullish_def)
  obtain q where q: "plugin_node tally_env unnamed_entry = Inr q"
    by (simp add: plugin_node_def unnamed_entry_def)
  note A = digest_of_record [where e = tally_env and r = first_bug and n = a1
      and ?r1.0 = first_bug and ?r2.0 = second_bug and ?n1.0 = a1 and ?n2.0 = a2]
  note P = digest_of_record [where e = tally_env and r = first_bug and n = p1
      and ?r1.0 = first_bug and ?r2.0 = second_bug and ?n1.0 = p1 and ?n2.0 = p2]
  note G = digest_of_record [where e = tally_env and r = events_group and n = g]
  note H = digest_of_record [where e = tally_env and r = unnamed_entry and n = h]
  note Q = digest_of_record [where e = tally_env and r = unnamed_entry and n = q]
  have ca: "digest_of a1 = JStr (createContentDigest tally_env
        (JObj [(''url'', get_prop a1 ''url''), (''title'', get_prop a1 ''title''),
               (''number'', get_prop a1 ''number''), (''comments'', get_prop a1 ''comments''),
               (''user'', get_prop a1 ''user'')]))"
    using A a1 by blast
  have cb: "(digest_of a1 = digest_of a2) =
      (\<forall>k \<in> set [''url'', ''title'', ''number'', ''comments'', ''user''].
          get_prop a1 k = get_prop a2 k)"
    using A i a1 a2 by blast
  have cp: "digest_of p1 = JStr (createContentDigest tally_env
        (JObj [(''url'', get_prop p1 ''url''), (''title'', get_prop p1 ''title''),
               (''number'', get_prop p1 ''number''), (''user'', get_prop p1 ''user'')]))"
    using P p1 by blast
  have cq: "(digest_of p1 = digest_of p2) =
      (\<forall>k \<in> set [''url'', ''title'', ''number'', ''user'']. get_prop p1 k = get_prop p2 k)"
    using P i p1 p2 by blast
  have cg: "digest_of g = JStr (createContentDigest tally_env (JObj [(''items'', get_prop events_group ''items'')]))"
    using G g by blast
  have ch: "digest_of h = JStr (createContentDigest tally_env unnamed_entry)"
    using H h k by blast
  have cq2: "digest_of q = JStr (createContentDigest tally_env unnamed_entry)"
    using Q q k by blast
  show ?thesis
    by (intro conjI exI) (rule i k a1 a2 ca cb p1 p2 cp cq g cg h ch q cq2)+
qed

end
